theory Spec2Isabelle
  imports Main "HOL-Library.Word" "HOL-Library.Sublist"
begin

section \<open>JavaScript values\<close>

text \<open>
  The framework is dynamically typed: every argument of \<open>use\<close>, \<open>prefetch\<close>,
  \<open>connect\<close>, \<open>publish\<close> and \<open>sendToQueue\<close> is an arbitrary JavaScript value whose
  type tag the code inspects with \<open>typeof\<close>. The values the code can tell apart are
  modelled by \<open>jsval\<close>. A function value carries its body, written in a small
  instruction language (\<open>instr\<close>): it can record an event, await the continuation
  \<open>next\<close> it was given, give the Context it was passed an own property
  (\<open>SetOwn\<close>: an assignment to a name that is not an accessor, or
  \<open>Object.defineProperty\<close> with a value), throw, or return a value. Thrown values are
  the two error classes the sources construct, \<open>Error\<close> and \<open>TypeError\<close>, with
  their message.
\<close>

datatype error = TypeError string | Error string

text \<open>What a user function records when it runs: that handler \<open>i\<close> of a chain has
  started or finished its work, or a free-form note.\<close>

datatype event = Entry nat | Exit nat | Note string

datatype jsval =
    JUndefined
  | JNull
  | JBool bool
  | JNum int
  | JStr string
  | JBuffer "8 word list"
  | JArr "jsval list"
  | JObj "(string \<times> jsval) list"
  | JFun "instr list"
  | JErr error
  | JApp
  | JConnection nat
  | JChannel nat
  | JCtx "(string \<times> jsval) list"
and instr =
    Log event
  | AwaitNext
  | SetOwn string jsval
  | Throw error
  | Return jsval

text \<open>
  \<open>JApp\<close> is the reference to the owning Application instance, \<open>JConnection\<close> and
  \<open>JChannel\<close> are handles of transport objects created by amqplib, and \<open>JCtx\<close> is a
  Context instance given by its own properties. \<open>JNum\<close> holds an integer: the code
  only ever looks at the type tag of a number.
\<close>

fun typeof :: "jsval \<Rightarrow> string" where
  "typeof JUndefined = ''undefined''"
| "typeof JNull = ''object''"
| "typeof (JBool b) = ''boolean''"
| "typeof (JNum n) = ''number''"
| "typeof (JStr s) = ''string''"
| "typeof (JBuffer bs) = ''object''"
| "typeof (JArr xs) = ''object''"
| "typeof (JObj ps) = ''object''"
| "typeof (JFun body) = ''function''"
| "typeof (JErr e) = ''object''"
| "typeof JApp = ''object''"
| "typeof (JConnection c) = ''object''"
| "typeof (JChannel c) = ''object''"
| "typeof (JCtx ps) = ''object''"

text \<open>\<open>content instanceof Buffer\<close> and \<open>Buffer.isBuffer(data)\<close>.\<close>

fun isBuffer :: "jsval \<Rightarrow> bool" where
  "isBuffer (JBuffer bs) = True"
| "isBuffer v = False"

text \<open>JavaScript truthiness, as tested by \<open>if (this.consumerChannel)\<close>.\<close>

fun truthy :: "jsval \<Rightarrow> bool" where
  "truthy JUndefined = False"
| "truthy JNull = False"
| "truthy (JBool b) = b"
| "truthy (JNum n) = (n \<noteq> 0)"
| "truthy (JStr s) = (s \<noteq> [])"
| "truthy v = True"

text \<open>A parameter with a default value takes the default when the argument is
  omitted or \<open>undefined\<close>.\<close>

definition default_arg :: "jsval \<Rightarrow> jsval \<Rightarrow> jsval" where
  "default_arg d v = (if v = JUndefined then d else v)"

section \<open>The Application object\<close>

text \<open>
  The fields of \<open>class Application\<close>. \<open>app_context\<close> is the object \<open>app.context\<close>,
  given by its own enumerable properties in insertion order; \<open>listeners\<close> holds the
  listeners registered on the emitter, in registration order, each with its event name.
  A field that has not been assigned (or has been deleted) reads as \<open>JUndefined\<close>.
\<close>

record application =
  queueName :: jsval
  queueOpts :: jsval
  consumeOpts :: jsval
  app_context :: "(string \<times> jsval) list"
  middlewares :: "jsval list"
  prefetchOpts :: "(jsval \<times> jsval) option"
  connection :: jsval
  consumerChannel :: jsval
  publisherChannel :: jsval
  consumerTag :: jsval
  listeners :: "(string \<times> jsval) list"

text \<open>\<open>constructor(queueName, queueOpts = {}, consumeOpts = {})\<close>\<close>

definition Application_new :: "jsval \<Rightarrow> jsval \<Rightarrow> jsval \<Rightarrow> error + application" where
  "Application_new qn qo0 co0 =
     (let qo = default_arg (JObj []) qo0; co = default_arg (JObj []) co0 in
      if typeof qn \<noteq> ''string'' then Inl (TypeError ''[queueName] must be a string.'')
      else if typeof qo \<noteq> ''object'' then Inl (TypeError ''[queueOpts] must be an object.'')
      else if typeof co \<noteq> ''object'' then Inl (TypeError ''[consumeOpts] must be an object.'')
      else Inr \<lparr> queueName = qn, queueOpts = qo, consumeOpts = co,
                 app_context = [], middlewares = [], prefetchOpts = None,
                 connection = JUndefined, consumerChannel = JUndefined,
                 publisherChannel = JUndefined, consumerTag = JUndefined,
                 listeners = [] \<rparr>)"

text \<open>\<open>on(event, listener)\<close> of the emitter the class extends: appends the listener,
  which must be a function.\<close>

definition on :: "application \<Rightarrow> string \<Rightarrow> jsval \<Rightarrow> error + application" where
  "on app ev l =
     (if typeof l \<noteq> ''function''
      then Inl (TypeError ''The listener argument must be of type function'')
      else Inr (app\<lparr>listeners := listeners app @ [(ev, l)]\<rparr>))"

text \<open>\<open>this.listeners(event)\<close>: the listeners registered for one event.\<close>

definition listeners_of :: "application \<Rightarrow> string \<Rightarrow> jsval list" where
  "listeners_of app ev = map snd (filter (\<lambda>p. fst p = ev) (listeners app))"

text \<open>
  \<open>prefetch(count, global = false)\<close>. Both tests are on \<open>count\<close>, as in the source:
  \<^verbatim>\<open>if (typeof count !== 'number') throw new TypeError('[count] must be a number.');\<close>
  \<^verbatim>\<open>if (typeof count !== 'boolean') throw new TypeError('[global] must be a boolean.');\<close>
\<close>

definition prefetch :: "application \<Rightarrow> jsval \<Rightarrow> jsval \<Rightarrow> error + application" where
  "prefetch app count global0 =
     (let global = default_arg (JBool False) global0 in
      if typeof count \<noteq> ''number'' then Inl (TypeError ''[count] must be a number.'')
      else if typeof count \<noteq> ''boolean'' then Inl (TypeError ''[global] must be a boolean.'')
      else Inr (app\<lparr>prefetchOpts := Some (count, global)\<rparr>))"

text \<open>
  \<open>use(...middlewares)\<close>: the loop throws at the first argument that is not a function;
  when it finishes, the arguments are concatenated to the sequence and \<open>this\<close> is
  returned.
\<close>

fun use_check :: "jsval list \<Rightarrow> error option" where
  "use_check [] = None"
| "use_check (fn # rest) =
     (if typeof fn \<noteq> ''function''
      then Some (TypeError ''Middleware must be composed of functions!'')
      else use_check rest)"

definition use :: "application \<Rightarrow> jsval list \<Rightarrow> error + application" where
  "use app mws =
     (case use_check mws of
        Some e \<Rightarrow> Inl e
      | None \<Rightarrow> Inr (app\<lparr>middlewares := middlewares app @ mws\<rparr>))"

section \<open>The world outside the application\<close>

text \<open>
  Everything the code does beyond computing a value is recorded in the \<open>world\<close>:
  the events recorded by user functions (\<open>trace\<close>), the operations requested from
  amqplib in order (\<open>calls\<close>), the events emitted on the application with their
  arguments (\<open>emitted\<close>), and the rejections of promises that nobody awaits or catches
  (\<open>unhandled\<close>). \<open>entered\<close> and \<open>invoked\<close> observe one run of a composed
  handler: the indices of the handlers entered, and the indices of the handlers that
  invoked their continuation, each in order of occurrence.
\<close>

datatype tcall =
    AmqpConnect jsval jsval
  | CreateChannel nat
  | ChannelPrefetch nat jsval jsval
  | AssertQueue nat jsval jsval
  | Consume nat jsval jsval
  | ChannelClose nat
  | ConnectionClose nat
  | Publish nat jsval jsval jsval jsval
  | SendToQueue nat jsval jsval jsval

record world =
  trace :: "event list"
  calls :: "tcall list"
  emitted :: "(string \<times> jsval list) list"
  unhandled :: "error list"
  entered :: "nat list"
  invoked :: "nat list"

text \<open>
  amqplib is a parameter of the model: from the operations requested so far and the
  operation requested now, it throws or rejects (\<open>Inl\<close>) or yields a value.
\<close>

type_synonym transport = "tcall list \<Rightarrow> tcall \<Rightarrow> error + jsval"

definition transport_call :: "transport \<Rightarrow> tcall \<Rightarrow> world \<Rightarrow> (error + jsval) \<times> world" where
  "transport_call T c w = (T (calls w) c, w\<lparr>calls := calls w @ [c]\<rparr>)"

datatype 'a promise = Resolved 'a | Rejected error

text \<open>
  Calling a user function without a continuation (a listener, or a function found in a
  property): \<open>next\<close> is then \<open>undefined\<close>, and calling it is a TypeError. A
  property such a function sets on the Context it was passed is read by nothing
  afterwards, and is not recorded.
\<close>

fun call_plain :: "instr list \<Rightarrow> world \<Rightarrow> (error + jsval) \<times> world" where
  "call_plain [] w = (Inr JUndefined, w)"
| "call_plain (Log l # rest) w = call_plain rest (w\<lparr>trace := trace w @ [l]\<rparr>)"
| "call_plain (AwaitNext # rest) w = (Inl (TypeError ''next is not a function''), w)"
| "call_plain (SetOwn k v # rest) w = call_plain rest w"
| "call_plain (Throw e # rest) w = (Inl e, w)"
| "call_plain (Return v # rest) w = (Inr v, w)"

text \<open>Calling the value of the expression \<open>nm\<close>: a TypeError unless it is a function.\<close>

fun call_value :: "jsval \<Rightarrow> string \<Rightarrow> world \<Rightarrow> (error + jsval) \<times> world" where
  "call_value (JFun body) nm w = call_plain body w"
| "call_value v nm w = (Inl (TypeError (nm @ '' is not a function'')), w)"

text \<open>
  Calling method \<open>nm\<close> on a value that is not one of the framework's own objects:
  reading a property of \<open>undefined\<close> or \<open>null\<close> throws, a plain object is searched
  for the property, and any other value has no such method.
\<close>

fun call_foreign :: "jsval \<Rightarrow> string \<Rightarrow> world \<Rightarrow> (error + jsval) \<times> world" where
  "call_foreign JUndefined nm w =
     (Inl (TypeError (''Cannot read property '' @ nm @ '' of undefined'')), w)"
| "call_foreign JNull nm w =
     (Inl (TypeError (''Cannot read property '' @ nm @ '' of null'')), w)"
| "call_foreign (JObj ps) nm w =
     (case map_of ps nm of Some f \<Rightarrow> call_value f nm w | None \<Rightarrow> call_value JUndefined nm w)"
| "call_foreign v nm w = call_value JUndefined nm w"

text \<open>Methods of a channel and of a connection are operations of the transport.\<close>

fun channel_call ::
  "transport \<Rightarrow> jsval \<Rightarrow> string \<Rightarrow> (nat \<Rightarrow> tcall) \<Rightarrow> world \<Rightarrow> (error + jsval) \<times> world" where
  "channel_call T (JChannel ch) nm mk w = transport_call T (mk ch) w"
| "channel_call T v nm mk w = call_foreign v nm w"

fun connection_call ::
  "transport \<Rightarrow> jsval \<Rightarrow> string \<Rightarrow> (nat \<Rightarrow> tcall) \<Rightarrow> world \<Rightarrow> (error + jsval) \<times> world" where
  "connection_call T (JConnection c) nm mk w = transport_call T (mk c) w"
| "connection_call T v nm mk w = call_foreign v nm w"

text \<open>
  \<open>emit(event, ...args)\<close> of the emitter: the listeners of the event are called
  synchronously in registration order, and an exception thrown by a listener leaves
  \<open>emit\<close>, the remaining listeners not being called.
\<close>

fun run_listeners :: "jsval list \<Rightarrow> world \<Rightarrow> error option \<times> world" where
  "run_listeners [] w = (None, w)"
| "run_listeners (l # ls) w =
     (case call_value l ''listener'' w of
        (Inl e, w') \<Rightarrow> (Some e, w')
      | (Inr r, w') \<Rightarrow> run_listeners ls w')"

definition emit :: "application \<Rightarrow> string \<Rightarrow> jsval list \<Rightarrow> world \<Rightarrow> error option \<times> world" where
  "emit app ev args w = run_listeners (listeners_of app ev) (w\<lparr>emitted := emitted w @ [(ev, args)]\<rparr>)"

section \<open>The Context\<close>

text \<open>
  A Context instance is given by its own properties, in insertion order. What it
  inherits is declared by the class body and by the three \<open>delegates(prototype, ...)\<close>
  chains: the class methods and the delegated \<open>method\<close>s are ordinary writable
  properties of the prototype, a delegated \<open>getter\<close> is an accessor without a setter,
  and a delegated \<open>access\<close> is an accessor with a getter and a setter, both forwarding
  to the named target. \<open>bufferFrom\<close> is declared \<open>static\<close>: it is a property of the
  class, not of the prototype.
\<close>

type_synonym "context" = "(string \<times> jsval) list"

datatype member = Method | Getter string | Access string

definition Context_prototype :: "(string \<times> member) list" where
  "Context_prototype =
     [(''constructor'', Method), (''publish'', Method), (''sendToQueue'', Method),
      (''onerror'', Method),
      (''ack'', Method), (''ackAll'', Method), (''nack'', Method), (''nackAll'', Method),
      (''reject'', Method),
      (''fields'', Getter ''message''), (''properties'', Getter ''message''),
      (''content'', Access ''message''),
      (''headers'', Getter ''properties''),
      (''consumerTag'', Getter ''fields''), (''deliveryTag'', Getter ''fields''),
      (''redelivered'', Getter ''fields''), (''exchange'', Getter ''fields''),
      (''routingKey'', Getter ''fields'')]"

definition Context_static :: "string list" where
  "Context_static = [''bufferFrom'']"

text \<open>The names whose assignment on an instance runs an accessor of the prototype
  chain instead of creating an own property (\<open>__proto__\<close> is the accessor of
  \<open>Object.prototype\<close>).\<close>

definition accessor_names :: "string list" where
  "accessor_names =
     ''__proto__'' # map fst (filter (\<lambda>p. snd p \<noteq> Method) Context_prototype)"

fun put :: "string \<Rightarrow> jsval \<Rightarrow> (string \<times> jsval) list \<Rightarrow> (string \<times> jsval) list" where
  "put k v [] = [(k, v)]"
| "put k v (p # ps) = (if fst p = k then (k, v) # ps else p # put k v ps)"

definition get_own :: "context \<Rightarrow> string \<Rightarrow> jsval" where
  "get_own ctx k = (case map_of ctx k of Some v \<Rightarrow> v | None \<Rightarrow> JUndefined)"

text \<open>Property lookup on an instance: own properties first, then the prototype.\<close>

datatype resolution = Own jsval | Inherited member | Absent

definition resolve :: "context \<Rightarrow> string \<Rightarrow> resolution" where
  "resolve ctx k =
     (case map_of ctx k of
        Some v \<Rightarrow> Own v
      | None \<Rightarrow> (case map_of Context_prototype k of Some m \<Rightarrow> Inherited m | None \<Rightarrow> Absent))"

text \<open>The fields assigned by the constructor before \<open>Object.assign\<close>.\<close>

definition Context_fields :: "application \<Rightarrow> jsval \<Rightarrow> context" where
  "Context_fields app message =
     [(''app'', JApp),
      (''connection'', connection app),
      (''consumerChannel'', consumerChannel app),
      (''publisherChannel'', publisherChannel app),
      (''queueName'', queueName app),
      (''message'', message),
      (''queueOpts'', queueOpts app),
      (''consumeOpts'', consumeOpts app),
      (''state'', JObj [])]"

text \<open>
  The setter of a delegated \<open>access\<close>: \<open>this[target][name] = val\<close>. The only one is
  \<open>content\<close>, whose target \<open>message\<close> is an own field. Writing into a message
  that is a plain object replaces its property; reading \<open>message\<close> as \<open>undefined\<close> or
  \<open>null\<close> throws; a property written on any other value is not represented.
\<close>

definition set_through :: "context \<Rightarrow> string \<Rightarrow> string \<Rightarrow> jsval \<Rightarrow> error + context" where
  "set_through ctx target k v =
     (case get_own ctx target of
        JObj ps \<Rightarrow> Inr (put target (JObj (put k v ps)) ctx)
      | JUndefined \<Rightarrow> Inl (TypeError (''Cannot set property '' @ k @ '' of undefined''))
      | JNull \<Rightarrow> Inl (TypeError (''Cannot set property '' @ k @ '' of null''))
      | other \<Rightarrow> Inr ctx)"

text \<open>
  One step of \<open>Object.assign(this, app.context)\<close>: the assignment \<open>this[k] = v\<close>,
  which throws where it cannot be done. An own property is overwritten; a name
  inherited as an ordinary property, or not inherited at all, becomes an own property;
  an inherited accessor runs its setter, and throws when it has none. The setter of
  \<open>__proto__\<close> replaces the prototype, which the model does not follow.
\<close>

definition assign_one :: "context \<Rightarrow> string \<times> jsval \<Rightarrow> error + context" where
  "assign_one ctx p =
     (let k = fst p; v = snd p in
      case resolve ctx k of
        Own old \<Rightarrow> Inr (put k v ctx)
      | Inherited Method \<Rightarrow> Inr (put k v ctx)
      | Inherited (Getter target) \<Rightarrow>
          Inl (TypeError (''Cannot set property '' @ k @ '' of #<Context> which has only a getter''))
      | Inherited (Access target) \<Rightarrow> set_through ctx target k v
      | Absent \<Rightarrow> if k = ''__proto__'' then Inr ctx else Inr (put k v ctx))"

fun assign :: "context \<Rightarrow> (string \<times> jsval) list \<Rightarrow> error + context" where
  "assign ctx [] = Inr ctx"
| "assign ctx (p # ps) =
     (case assign_one ctx p of Inl e \<Rightarrow> Inl e | Inr ctx' \<Rightarrow> assign ctx' ps)"

text \<open>\<open>constructor(app, message)\<close>\<close>

definition Context_new :: "application \<Rightarrow> jsval \<Rightarrow> error + context" where
  "Context_new app message = assign (Context_fields app message) (app_context app)"

text \<open>
  \<open>static bufferFrom(data)\<close>. \<open>JSON.stringify\<close>, the template literal and the
  UTF-8 encoding of \<open>Buffer.from\<close> belong to the platform and are parameters.
\<close>

record platform =
  JSON_stringify :: "jsval \<Rightarrow> error + jsval"
  template :: "jsval \<Rightarrow> string"
  utf8 :: "string \<Rightarrow> 8 word list"

definition Buffer_from :: "platform \<Rightarrow> jsval \<Rightarrow> error + jsval" where
  "Buffer_from P v =
     (case v of
        JStr s \<Rightarrow> Inr (JBuffer (utf8 P s))
      | other \<Rightarrow> Inl (TypeError ''The first argument must be of type string or an instance of Buffer''))"

definition bufferFrom :: "platform \<Rightarrow> jsval \<Rightarrow> error + jsval" where
  "bufferFrom P data =
     (if isBuffer data then Inr data
      else case (if typeof data = ''object'' then JSON_stringify P data
                 else Inr (JStr (template P data))) of
             Inl e \<Rightarrow> Inl e
           | Inr s \<Rightarrow> Buffer_from P s)"

text \<open>
  The call \<open>this.bufferFrom(content)\<close> made by \<open>publish\<close> and \<open>sendToQueue\<close>:
  the property is looked up on the instance. An own property (put there from
  \<open>app.context\<close>) is called; a member of the prototype would be the class's
  \<open>bufferFrom\<close>; a property found nowhere is \<open>undefined\<close>, and calling it throws.
\<close>

definition this_bufferFrom ::
  "platform \<Rightarrow> context \<Rightarrow> jsval \<Rightarrow> world \<Rightarrow> (error + jsval) \<times> world" where
  "this_bufferFrom P ctx content w =
     (case resolve ctx ''bufferFrom'' of
        Own f \<Rightarrow> call_value f ''this.bufferFrom'' w
      | Inherited m \<Rightarrow> (bufferFrom P content, w)
      | Absent \<Rightarrow> call_value JUndefined ''this.bufferFrom'' w)"

text \<open>An \<open>async\<close> function turns what its body throws into a rejection.\<close>

fun settle :: "(error + 'a) \<times> world \<Rightarrow> 'a promise \<times> world" where
  "settle (Inl e, w) = (Rejected e, w)"
| "settle (Inr v, w) = (Resolved v, w)"

text \<open>\<open>async publish(exchange, routingKey, content, options = {})\<close>\<close>

definition publish ::
  "platform \<Rightarrow> transport \<Rightarrow> context \<Rightarrow> jsval \<Rightarrow> jsval \<Rightarrow> jsval \<Rightarrow> jsval \<Rightarrow> world
     \<Rightarrow> jsval promise \<times> world" where
  "publish P T ctx exchange routingKey content options0 w =
     (let options = default_arg (JObj []) options0 in
      if typeof exchange \<noteq> ''string''
      then (Rejected (TypeError ''[exchange] must be a string.''), w)
      else if typeof routingKey \<noteq> ''string''
      then (Rejected (TypeError ''[routingKey] must be a string.''), w)
      else if \<not> (typeof content = ''string'' \<or> typeof content = ''object'' \<or> isBuffer content)
      then (Rejected (TypeError ''[content] must be a string, object or an instance of Buffer.''), w)
      else if typeof options \<noteq> ''object''
      then (Rejected (TypeError ''[options] must be an object.''), w)
      else case this_bufferFrom P ctx content w of
             (Inl e, w1) \<Rightarrow> (Rejected e, w1)
           | (Inr buf, w1) \<Rightarrow>
               settle (channel_call T (get_own ctx ''publisherChannel'') ''publish''
                        (\<lambda>ch. Publish ch exchange routingKey buf options) w1))"

text \<open>\<open>async sendToQueue(queue, content, options = {})\<close>\<close>

definition sendToQueue ::
  "platform \<Rightarrow> transport \<Rightarrow> context \<Rightarrow> jsval \<Rightarrow> jsval \<Rightarrow> jsval \<Rightarrow> world
     \<Rightarrow> jsval promise \<times> world" where
  "sendToQueue P T ctx queue content options0 w =
     (let options = default_arg (JObj []) options0 in
      if typeof queue \<noteq> ''string''
      then (Rejected (TypeError ''[queue] must be a string''), w)
      else if \<not> (typeof content = ''string'' \<or> typeof content = ''object'' \<or> isBuffer content)
      then (Rejected (TypeError ''[content] must be a string, object or an instance of Buffer.''), w)
      else if typeof options \<noteq> ''object''
      then (Rejected (TypeError ''[options] must be an object.''), w)
      else case this_bufferFrom P ctx content w of
             (Inl e, w1) \<Rightarrow> (Rejected e, w1)
           | (Inr buf, w1) \<Rightarrow>
               settle (channel_call T (get_own ctx ''publisherChannel'') ''sendToQueue''
                        (\<lambda>ch. SendToQueue ch queue buf options) w1))"

text \<open>
  \<open>onerror(err)\<close>: \<open>this.app.emit('consumer:error', err, this)\<close>. \<open>this.app\<close> is the
  owning application unless \<open>app.context\<close> has replaced the field.
\<close>

definition onerror :: "application \<Rightarrow> context \<Rightarrow> error \<Rightarrow> world \<Rightarrow> error option \<times> world" where
  "onerror app ctx err w =
     (case get_own ctx ''app'' of
        JApp \<Rightarrow> emit app ''consumer:error'' [JErr err, JCtx ctx] w
      | other \<Rightarrow>
          (case call_foreign other ''emit'' w of
             (Inl e, w') \<Rightarrow> (Some e, w')
           | (Inr r, w') \<Rightarrow> (None, w')))"

text \<open>
  The call \<open>context.onerror(err)\<close>: the method is looked up on the instance, so an
  own property \<open>onerror\<close> (copied from \<open>app.context\<close> by the constructor, or set by
  a handler) is what is called, and the class's \<open>onerror\<close> only when there is none.
\<close>

definition call_onerror ::
  "application \<Rightarrow> context \<Rightarrow> error \<Rightarrow> world \<Rightarrow> error option \<times> world" where
  "call_onerror app ctx err w =
     (case resolve ctx ''onerror'' of
        Own f \<Rightarrow>
          (case call_value f ''context.onerror'' w of
             (Inl e, w') \<Rightarrow> (Some e, w')
           | (Inr r, w') \<Rightarrow> (None, w'))
      | Inherited m \<Rightarrow> onerror app ctx err w
      | Absent \<Rightarrow> (Some (TypeError ''context.onerror is not a function''), w))"

section \<open>Composition and dispatch\<close>

text \<open>
  A composed handler is called with the Context and settles with success or failure;
  it may have changed the Context, which is an object: the Context as the handler left
  it is part of the result.
\<close>

type_synonym composed = "context \<Rightarrow> world \<Rightarrow> (error + unit) \<times> context \<times> world"

text \<open>The body of a middleware function.\<close>

fun body_of :: "jsval \<Rightarrow> instr list" where
  "body_of (JFun body) = body"
| "body_of v = []"

text \<open>
  Modelled from the spec: the Composition Engine. The source obtains \<open>compose\<close> from
  the package koa-compose, which is not among the repository's sources, so the engine
  follows section 4.1 of the specification. Dispatching index \<open>i\<close> invokes handler
  \<open>i\<close> with a continuation that dispatches index \<open>i + 1\<close>; dispatching past the last
  index completes at once; a continuation invoked a second time by its handler fails
  with the error "next called multiple times" instead of dispatching again; the failure
  of a handler, thrown or rejected, is the failure of every caller that awaits it.
  Composing a sequence with an element that is not a function is an error at
  composition time.

  \<open>run_handler body called hs i\<close> runs what is left of the body of handler \<open>i\<close>, whose
  downstream handlers are \<open>hs\<close>; \<open>called\<close> tells whether this handler has invoked its
  continuation already. Every handler of the chain works on the one Context. A
  handler's own return value is not used.
\<close>

function dispatch ::
    "instr list list \<Rightarrow> nat \<Rightarrow> context \<Rightarrow> world \<Rightarrow> (error + unit) \<times> context \<times> world"
  and run_handler ::
    "instr list \<Rightarrow> bool \<Rightarrow> instr list list \<Rightarrow> nat \<Rightarrow> context \<Rightarrow> world
       \<Rightarrow> (error + unit) \<times> context \<times> world" where
  "dispatch [] i ctx w = (Inr (), ctx, w)"
| "dispatch (h # hs) i ctx w = run_handler h False hs i ctx (w\<lparr>entered := entered w @ [i]\<rparr>)"
| "run_handler [] called hs i ctx w = (Inr (), ctx, w)"
| "run_handler (Log l # rest) called hs i ctx w =
     run_handler rest called hs i ctx (w\<lparr>trace := trace w @ [l]\<rparr>)"
| "run_handler (SetOwn k v # rest) called hs i ctx w =
     run_handler rest called hs i (put k v ctx) w"
| "run_handler (Throw e # rest) called hs i ctx w = (Inl e, ctx, w)"
| "run_handler (Return v # rest) called hs i ctx w = (Inr (), ctx, w)"
| "run_handler (AwaitNext # rest) called hs i ctx w =
     (if called
      then (Inl (Error ''next called multiple times''), ctx, w\<lparr>invoked := invoked w @ [i]\<rparr>)
      else case dispatch hs (Suc i) ctx (w\<lparr>invoked := invoked w @ [i]\<rparr>) of
             (Inl e, ctx1, w1) \<Rightarrow> (Inl e, ctx1, w1)
           | (Inr u, ctx1, w1) \<Rightarrow> run_handler rest True hs i ctx1 w1)"
  by pat_completeness auto
termination
  by (relation "measures
        [\<lambda>x. case x of Inl (hs, i, c, w) \<Rightarrow> length hs | Inr (b, d, hs, i, c, w) \<Rightarrow> length hs,
         \<lambda>x. case x of Inl (hs, i, c, w) \<Rightarrow> 0 | Inr (b, d, hs, i, c, w) \<Rightarrow> Suc (length b)]")
     auto

text \<open>
  Modelled from the spec: \<open>compose\<close> of koa-compose, which the source requires and
  the repository's sources do not contain. It rejects a sequence with an element that
  is not a function, and otherwise yields the composed handler, which dispatches index
  0 on a fresh record of the handlers entered and the continuations invoked.
\<close>

definition compose :: "jsval list \<Rightarrow> error + composed" where
  "compose mws =
     (if list_all (\<lambda>fn. typeof fn = ''function'') mws
      then Inr (\<lambda>ctx w. dispatch (map body_of mws) 0 ctx (w\<lparr>entered := [], invoked := []\<rparr>))
      else Inl (TypeError ''Middleware must be composed of functions!''))"

text \<open>
  The delivery callback returned by \<open>messageHandler\<close>:
  \<^verbatim>\<open>async (message) => { const context = new Context(this, message);\<close>
  \<^verbatim>\<open>  try { await fn(context); } catch (err) { context.onerror(err); } }\<close>
  The Context is built outside the \<open>try\<close>. In the \<open>catch\<close> block, \<open>onerror\<close> is
  looked up on the Context as the handler left it; what the call throws leaves the
  \<open>catch\<close> block and rejects the callback's promise.
\<close>

definition deliver ::
  "composed \<Rightarrow> application \<Rightarrow> jsval \<Rightarrow> world \<Rightarrow> unit promise \<times> world" where
  "deliver fn app message w =
     (case Context_new app message of
        Inl e \<Rightarrow> (Rejected e, w)
      | Inr ctx \<Rightarrow>
          (case fn ctx w of
             (Inr u, ctx1, w1) \<Rightarrow> (Resolved (), w1)
           | (Inl err, ctx1, w1) \<Rightarrow>
               (case call_onerror app ctx1 err w1 of
                  (None, w2) \<Rightarrow> (Resolved (), w2)
                | (Some e, w2) \<Rightarrow> (Rejected e, w2))))"

text \<open>\<open>messageHandler()\<close> composes the middlewares once and returns the callback.\<close>

definition messageHandler ::
  "application \<Rightarrow> error + (application \<Rightarrow> jsval \<Rightarrow> world \<Rightarrow> unit promise \<times> world)" where
  "messageHandler app =
     (case compose (middlewares app) of Inl e \<Rightarrow> Inl e | Inr fn \<Rightarrow> Inr (deliver fn))"

section \<open>Connecting and closing\<close>

text \<open>
  \<open>connection.on(...)\<close> and \<open>channel.on(...)\<close> register the forwarding of transport
  events; they need the object amqplib returned to be an emitter.
\<close>

fun is_handle :: "jsval \<Rightarrow> bool" where
  "is_handle (JConnection c) = True"
| "is_handle (JChannel c) = True"
| "is_handle v = False"

text \<open>\<open>async createConnection(url, socketOpts)\<close>\<close>

definition createConnection ::
  "transport \<Rightarrow> application \<Rightarrow> jsval \<Rightarrow> jsval \<Rightarrow> world \<Rightarrow> (error + jsval) \<times> world" where
  "createConnection T app url socketOpts w =
     (case transport_call T (AmqpConnect url socketOpts) w of
        (Inl e, w1) \<Rightarrow> (Inl e, w1)
      | (Inr conn, w1) \<Rightarrow>
          (case emit app ''connection:created'' [conn] w1 of
             (Some e, w2) \<Rightarrow> (Inl e, w2)
           | (None, w2) \<Rightarrow>
               if is_handle conn then (Inr conn, w2)
               else (Inl (TypeError ''connection.on is not a function''), w2)))"

text \<open>\<open>async createChannel(connection, key)\<close>\<close>

definition createChannel ::
  "transport \<Rightarrow> application \<Rightarrow> jsval \<Rightarrow> string \<Rightarrow> world \<Rightarrow> (error + jsval) \<times> world" where
  "createChannel T app conn key w =
     (case connection_call T conn ''createChannel'' CreateChannel w of
        (Inl e, w1) \<Rightarrow> (Inl e, w1)
      | (Inr channel, w1) \<Rightarrow>
          (case emit app (key @ '':created'') [channel] w1 of
             (Some e, w2) \<Rightarrow> (Inl e, w2)
           | (None, w2) \<Rightarrow>
               if is_handle channel then (Inr channel, w2)
               else (Inl (TypeError ''channel.on is not a function''), w2)))"

text \<open>The inner function \<open>consume\<close> of \<open>connect\<close>.\<close>

definition consume :: "transport \<Rightarrow> application \<Rightarrow> world \<Rightarrow> (error + jsval) \<times> world" where
  "consume T app w =
     (case messageHandler app of
        Inl e \<Rightarrow> (Inl e, w)
      | Inr handler \<Rightarrow>
          (case channel_call T (consumerChannel app) ''assertQueue''
                  (\<lambda>ch. AssertQueue ch (queueName app) (queueOpts app)) w of
             (Inl e, w1) \<Rightarrow> (Inl e, w1)
           | (Inr ok, w1) \<Rightarrow>
               channel_call T (consumerChannel app) ''consume''
                 (\<lambda>ch. Consume ch (queueName app) (consumeOpts app)) w1))"

text \<open>
  \<open>if (this.prefetchOpts) this.consumerChannel.prefetch(count, global)\<close>. The call is
  not awaited: on a channel it yields a promise, and when the transport fails the
  operation that promise is rejected with nobody holding it, while the setup goes on.
  Only a call that cannot be made at all (the value is not a channel) throws into the
  \<open>try\<close> block.
\<close>

fun prefetch_call ::
  "transport \<Rightarrow> jsval \<Rightarrow> jsval \<Rightarrow> jsval \<Rightarrow> world \<Rightarrow> (error + jsval) \<times> world" where
  "prefetch_call T (JChannel ch) count global w =
     (case transport_call T (ChannelPrefetch ch count global) w of
        (Inl e, w1) \<Rightarrow> (Inr JUndefined, w1\<lparr>unhandled := unhandled w1 @ [e]\<rparr>)
      | (Inr r, w1) \<Rightarrow> (Inr r, w1))"
| "prefetch_call T v count global w = call_foreign v ''prefetch'' w"

definition apply_prefetch :: "transport \<Rightarrow> application \<Rightarrow> world \<Rightarrow> (error + jsval) \<times> world" where
  "apply_prefetch T app w =
     (case prefetchOpts app of
        None \<Rightarrow> (Inr JUndefined, w)
      | Some (count, global) \<Rightarrow> prefetch_call T (consumerChannel app) count global w)"

text \<open>
  The \<open>try\<close> block of \<open>connect\<close>: the error that left it, if any, with the application
  and the world as they were at that point.
\<close>

definition connect_try ::
  "transport \<Rightarrow> application \<Rightarrow> jsval \<Rightarrow> jsval \<Rightarrow> world \<Rightarrow> error option \<times> application \<times> world" where
  "connect_try T app url socketOpts w =
     (case createConnection T app url socketOpts w of
        (Inl e, w1) \<Rightarrow> (Some e, app, w1)
      | (Inr conn, w1) \<Rightarrow>
          (let app1 = app\<lparr>connection := conn\<rparr> in
           case createChannel T app1 (connection app1) ''consumer-channel'' w1 of
             (Inl e, w2) \<Rightarrow> (Some e, app1, w2)
           | (Inr cch, w2) \<Rightarrow>
               (let app2 = app1\<lparr>consumerChannel := cch\<rparr> in
                case apply_prefetch T app2 w2 of
                  (Inl e, w3) \<Rightarrow> (Some e, app2, w3)
                | (Inr ok, w3) \<Rightarrow>
                    (case createChannel T app2 (connection app2) ''publisher-channel'' w3 of
                       (Inl e, w4) \<Rightarrow> (Some e, app2, w4)
                     | (Inr pch, w4) \<Rightarrow>
                         (let app3 = app2\<lparr>publisherChannel := pch\<rparr> in
                          case consume T app3 w4 of
                            (Inl e, w5) \<Rightarrow> (Some e, app3, w5)
                          | (Inr tag, w5) \<Rightarrow>
                              (let app4 = app3\<lparr>consumerTag := tag\<rparr> in
                               case emit app4 ''consumer:listen'' [queueName app4, tag] w5 of
                                 (Some e, w6) \<Rightarrow> (Some e, app4, w6)
                               | (None, w6) \<Rightarrow> (None, app4, w6)))))))"

text \<open>
  \<open>async close()\<close>: each object that is set is closed and its field deleted, in the
  order consumer channel, publisher channel, connection; a \<open>close\<close> that rejects
  leaves the function there.
\<close>

definition close :: "transport \<Rightarrow> application \<Rightarrow> world \<Rightarrow> unit promise \<times> application \<times> world" where
  "close T app w =
     (case (if truthy (consumerChannel app)
            then channel_call T (consumerChannel app) ''close'' ChannelClose w
            else (Inr JUndefined, w)) of
        (Inl e, w1) \<Rightarrow> (Rejected e, app, w1)
      | (Inr ok, w1) \<Rightarrow>
          (let app1 = app\<lparr>consumerChannel := JUndefined\<rparr> in
           case (if truthy (publisherChannel app1)
                 then channel_call T (publisherChannel app1) ''close'' ChannelClose w1
                 else (Inr JUndefined, w1)) of
             (Inl e, w2) \<Rightarrow> (Rejected e, app1, w2)
           | (Inr ok, w2) \<Rightarrow>
               (let app2 = app1\<lparr>publisherChannel := JUndefined\<rparr> in
                case (if truthy (connection app2)
                      then connection_call T (connection app2) ''close'' ConnectionClose w2
                      else (Inr JUndefined, w2)) of
                  (Inl e, w3) \<Rightarrow> (Rejected e, app2, w3)
                | (Inr ok, w3) \<Rightarrow> (Resolved (), app2\<lparr>connection := JUndefined\<rparr>, w3))))"

text \<open>
  \<open>async connect(url, socketOpts = {})\<close>. The \<open>catch\<close> block is
  \<^verbatim>\<open>this.close().catch((closeError) => { throw err; });\<close>
  It starts \<open>close\<close> and neither awaits nor returns the promise, and it throws nothing
  itself, so \<open>connect\<close> completes normally. When \<open>close\<close> rejects, the callback throws
  \<open>err\<close> inside the promise made by \<open>.catch\<close>, which nobody holds: an unhandled
  rejection. The promise of \<open>connect\<close> is resolved as soon as \<open>close\<close> has been
  started; the application and the world given with it here are those reached once the
  detached \<open>close\<close> has settled.
\<close>

definition connect ::
  "transport \<Rightarrow> application \<Rightarrow> jsval \<Rightarrow> jsval \<Rightarrow> world \<Rightarrow> unit promise \<times> application \<times> world" where
  "connect T app url socketOpts0 w =
     (let socketOpts = default_arg (JObj []) socketOpts0 in
      if length (middlewares app) = 0
      then (Rejected (Error ''At least one queue middleware is required.''), app, w)
      else if length (listeners_of app ''consumer:error'') = 0
      then (Rejected (Error ''An error handler is required.''), app, w)
      else if typeof url \<noteq> ''string''
      then (Rejected (TypeError ''[url] must be a string.''), app, w)
      else if typeof socketOpts \<noteq> ''object''
      then (Rejected (TypeError ''[socketOpts] must be an object.''), app, w)
      else case connect_try T app url socketOpts w of
             (None, app1, w1) \<Rightarrow> (Resolved (), app1, w1)
           | (Some err, app1, w1) \<Rightarrow>
               (case close T app1 w1 of
                  (Resolved u, app2, w2) \<Rightarrow> (Resolved (), app2, w2)
                | (Rejected closeError, app2, w2) \<Rightarrow>
                    (Resolved (), app2, w2\<lparr>unhandled := unhandled w2 @ [err]\<rparr>)))"

text \<open>
  The call of an \<open>async\<close> function as its caller sees it: the call completes normally
  and yields the promise, whatever the body does; what the body throws is the
  rejection of that promise and is never thrown to the caller. (A function that is not
  \<open>async\<close>, like \<open>use\<close> or \<open>prefetch\<close>, throws to its caller: \<open>Inl\<close>.)
\<close>

definition async_call :: "'a promise \<times> 's \<Rightarrow> (error + 'a promise) \<times> 's" where
  "async_call r = (Inr (fst r), snd r)"

section \<open>Listeners that do not throw\<close>



section \<open>Concrete applications, brokers and platforms\<close>

definition world0 :: world where
  "world0 = \<lparr> trace = [], calls = [], emitted = [], unhandled = [], entered = [], invoked = [] \<rparr>"

text \<open>
  The application of the README's first example: \<open>new SlimRabbit('test_queue')\<close>, one
  \<open>consumer:error\<close> listener and one middleware.
\<close>

definition hello_app :: application where
  "hello_app =
     \<lparr> queueName = JStr ''test_queue'', queueOpts = JObj [], consumeOpts = JObj [],
       app_context = [], middlewares = [JFun [Log (Note ''message handled'')]],
       prefetchOpts = None,
       connection = JUndefined, consumerChannel = JUndefined,
       publisherChannel = JUndefined, consumerTag = JUndefined,
       listeners = [(''consumer:error'', JFun [Log (Note ''error logged'')])] \<rparr>"

text \<open>The same application once connected.\<close>

definition connected_app :: application where
  "connected_app =
     hello_app\<lparr> connection := JConnection 0, consumerChannel := JChannel 1,
                publisherChannel := JChannel 2, consumerTag := JStr ''ctag'' \<rparr>"

text \<open>A broker that accepts everything, one that refuses the connection, and one on
  which the queue cannot be asserted and channels cannot be closed.\<close>

fun broker :: transport where
  "broker h (AmqpConnect url opts) = Inr (JConnection 0)"
| "broker h (CreateChannel c) = Inr (JChannel (length h))"
| "broker h (Consume ch q opts) = Inr (JStr ''ctag'')"
| "broker h (Publish ch ex rk buf opts) = Inr (JBool True)"
| "broker h (SendToQueue ch q buf opts) = Inr (JBool True)"
| "broker h c = Inr JUndefined"

fun refusing_broker :: transport where
  "refusing_broker h c = Inl (Error ''connect ECONNREFUSED'')"

fun failing_broker :: transport where
  "failing_broker h (AssertQueue ch q opts) = Inl (Error ''PRECONDITION_FAILED'')"
| "failing_broker h (ChannelClose ch) = Inl (Error ''Channel closed'')"
| "failing_broker h c = broker h c"

definition ascii_platform :: platform where
  "ascii_platform =
     \<lparr> JSON_stringify = (\<lambda>v. Inr (JStr ''{}'')),
       template = (\<lambda>v. case v of JStr s \<Rightarrow> s | other \<Rightarrow> []),
       utf8 = map (\<lambda>c. of_nat (of_char c)) \<rparr>"


definition failing_handler :: composed where
  "failing_handler ctx w = (Inl (Error ''handler failed''), ctx, w)"

text \<open>
  Handler \<open>i\<close> of an onion: it records its entry, awaits \<open>next()\<close>, and records its
  exit. \<open>onion N\<close> is the sequence of the handlers \<open>0, ..., N - 1\<close>.
\<close>

definition onion_handler :: "nat \<Rightarrow> jsval" where
  "onion_handler i = JFun [Log (Entry i), AwaitNext, Log (Exit i)]"

definition onion :: "nat \<Rightarrow> jsval list" where
  "onion N = map onion_handler [0..<N]"



text \<open>An application whose \<open>app.context\<close> carries its own \<open>onerror\<close>.\<close>

definition shadowing_app :: application where
  "shadowing_app =
     hello_app\<lparr> app_context := [(''onerror'', JFun [Log (Note ''own onerror'')])] \<rparr>"

text \<open>An application with \<open>app.context.db\<close> set, and \<open>queueName\<close> overridden.\<close>

definition extended_app :: application where
  "extended_app = connected_app\<lparr>app_context := [(''db'', JStr ''pg''), (''queueName'', JNum 1)]\<rparr>"

section \<open>Registration and prefetch\<close>

text \<open>The example application is what the constructor, \<open>on\<close> and \<open>use\<close> build.\<close>

lemma hello_app_constructed:
  "\<exists>a0 a1. Application_new (JStr ''test_queue'') JUndefined JUndefined = Inr a0
     \<and> on a0 ''consumer:error'' (JFun [Log (Note ''error logged'')]) = Inr a1
     \<and> use a1 [JFun [Log (Note ''message handled'')]] = Inr hello_app"
  by (simp add: Application_new_def on_def use_def hello_app_def default_arg_def Let_def)

lemma use_check_None: "use_check mws = None \<longleftrightarrow> (\<forall>fn \<in> set mws. typeof fn = ''function'')"
  by (induction mws) auto

lemma use_check_Some:
  "use_check mws = Some e \<Longrightarrow> e = TypeError ''Middleware must be composed of functions!''"
  by (induction mws) (auto split: if_splits)

text \<open>
  Claim C8. \<open>use\<close> throws the TypeError as soon as one of its arguments is not a
  function, and otherwise returns the application with the arguments appended, in
  order, to the middleware sequence. \<open>use\<close> is an ordinary (synchronous) method that
  touches nothing but the sequence, so the error is raised at registration, with no
  message involved.
\<close>

theorem use_registers_functions_only:
  "((\<exists>fn \<in> set mws. typeof fn \<noteq> ''function'') \<longrightarrow>
      use app mws = Inl (TypeError ''Middleware must be composed of functions!''))
   \<and> ((\<forall>fn \<in> set mws. typeof fn = ''function'') \<longrightarrow>
      use app mws = Inr (app\<lparr>middlewares := middlewares app @ mws\<rparr>))"
proof (cases "use_check mws")
  case None
  then show ?thesis
    using use_check_None [of mws] by (auto simp: use_def)
next
  case (Some e)
  then have "e = TypeError ''Middleware must be composed of functions!''"
    by (rule use_check_Some)
  moreover from Some have "\<not> (\<forall>fn \<in> set mws. typeof fn = ''function'')"
    using use_check_None [of mws] by simp
  ultimately show ?thesis
    using Some by (auto simp: use_def)
qed

theorem use_registers_functions_only_witness:
  "typeof (JNum 7) \<noteq> ''function''
   \<and> use hello_app [JFun [Log (Note ''a'')], JNum 7] =
       Inl (TypeError ''Middleware must be composed of functions!'')
   \<and> typeof (JFun [Log (Note ''a'')]) = ''function'' \<and> typeof (JFun [AwaitNext]) = ''function''
   \<and> use hello_app [JFun [Log (Note ''a'')], JFun [AwaitNext]] =
       Inr (hello_app\<lparr>middlewares :=
              [JFun [Log (Note ''message handled'')], JFun [Log (Note ''a'')], JFun [AwaitNext]]\<rparr>)"
  using use_registers_functions_only [of "[JFun [Log (Note ''a'')], JNum 7]" hello_app]
    use_registers_functions_only [of "[JFun [Log (Note ''a'')], JFun [AwaitNext]]" hello_app]
  by (simp add: hello_app_def)

text \<open>
  Claim C9. With a numeric \<open>count\<close>, \<open>prefetch\<close> throws
  \<open>TypeError('[global] must be a boolean.')\<close> whatever \<open>global\<close> is, because the second
  test is again on \<open>count\<close>; so no call with a numeric \<open>count\<close> returns, and
  \<open>prefetchOpts\<close> is not set by it.
\<close>

theorem prefetch_numeric_count_throws:
  "typeof count = ''number'' \<Longrightarrow>
     prefetch app count global = Inl (TypeError ''[global] must be a boolean.'')
     \<and> (\<forall>app'. prefetch app count global \<noteq> Inr app')"
  by (simp add: prefetch_def Let_def)

theorem prefetch_numeric_count_throws_witness:
  "typeof (JNum 20) = ''number''
   \<and> prefetch hello_app (JNum 20) (JBool False) = Inl (TypeError ''[global] must be a boolean.'')
   \<and> (\<forall>app'. prefetch hello_app (JNum 20) (JBool False) \<noteq> Inr app')"
  using prefetch_numeric_count_throws [of "JNum 20" hello_app "JBool False"] by simp

section \<open>Constructing a Context\<close>

lemma map_of_put: "map_of (put k v ps) = (map_of ps)(k \<mapsto> v)"
  by (induction ps) (auto simp: fun_eq_iff)

lemma inherited_accessor:
  "map_of Context_prototype k = Some m \<Longrightarrow> k \<notin> set accessor_names \<Longrightarrow> m = Method"
proof (rule ccontr)
  assume m: "map_of Context_prototype k = Some m" and k: "k \<notin> set accessor_names"
    and n: "m \<noteq> Method"
  from m have "(k, m) \<in> set Context_prototype" by (rule map_of_SomeD)
  with n have "(k, m) \<in> set (filter (\<lambda>p. snd p \<noteq> Method) Context_prototype)" by simp
  then have "k \<in> fst ` set (filter (\<lambda>p. snd p \<noteq> Method) Context_prototype)" by force
  with k show False by (simp add: accessor_names_def)
qed

lemma assign_one_plain:
  assumes "k \<notin> set accessor_names"
  shows "assign_one ctx (k, v) = Inr (put k v ctx)"
proof -
  from assms have p: "k \<noteq> ''__proto__''" by (auto simp: accessor_names_def)
  show ?thesis
  proof (cases "resolve ctx k")
    case (Own old)
    then show ?thesis by (simp add: assign_one_def)
  next
    case (Inherited m)
    then have "map_of Context_prototype k = Some m"
      by (auto simp: resolve_def split: option.splits)
    then have "m = Method" using assms by (rule inherited_accessor)
    with Inherited show ?thesis by (simp add: assign_one_def)
  next
    case Absent
    with p show ?thesis by (simp add: assign_one_def)
  qed
qed

lemma assign_plain:
  "\<forall>k \<in> set (map fst ps). k \<notin> set accessor_names \<Longrightarrow>
     \<exists>ctx'. assign ctx ps = Inr ctx' \<and> map_of ctx' = map_of ctx ++ map_of (rev ps)"
proof (induction ps arbitrary: ctx)
  case Nil
  then show ?case by simp
next
  case (Cons p ps)
  obtain k v where p: "p = (k, v)" by (cases p)
  with Cons.prems have k: "k \<notin> set accessor_names" by simp
  from Cons.prems have "\<forall>k \<in> set (map fst ps). k \<notin> set accessor_names" by simp
  from Cons.IH [OF this, of "put k v ctx"] obtain ctx' where
    a: "assign (put k v ctx) ps = Inr ctx'"
    and m: "map_of ctx' = map_of (put k v ctx) ++ map_of (rev ps)" by blast
  have "assign ctx (p # ps) = Inr ctx'"
    using p a by (simp add: assign_one_plain [OF k])
  moreover have "map_of ctx' = map_of ctx ++ map_of (rev (p # ps))"
    using m p by (simp add: map_of_put fun_eq_iff map_add_def split: option.splits)
  ultimately show ?case by blast
qed

lemma map_of_rev_distinct: "distinct (map fst xs) \<Longrightarrow> map_of (rev xs) = map_of xs"
proof (induction xs)
  case Nil
  then show ?case by simp
next
  case (Cons p xs)
  obtain k v where p: "p = (k, v)" by (cases p)
  with Cons.prems have "k \<notin> fst ` set xs" by simp
  then have none: "map_of xs k = None" by (simp add: map_of_eq_None_iff)
  from Cons have ih: "map_of (rev xs) = map_of xs" by simp
  have "(map_of [p] ++ map_of xs) x = map_of (p # xs) x" for x
    using p none by (cases "x = k") (auto simp: map_add_def split: option.splits)
  then show ?case by (simp add: ih fun_eq_iff)
qed

text \<open>
  Claim C10, as amended. Provided that no own enumerable property of \<open>app.context\<close>
  is named like an accessor of the Context's prototype chain (the property names of an
  object being distinct): during Context construction every own enumerable property of
  \<open>app.context\<close> is copied onto the new Context after the built-in fields are
  assigned, so a key whose name collides with a built-in field replaces that field's
  value, and every built-in field whose name \<open>app.context\<close> does not use keeps the
  value the constructor gave it; in particular, when \<open>state\<close> and \<open>message\<close> are not
  among the keys, the Context starts with a fresh empty \<open>state\<close> and the message it
  was constructed with.
\<close>

theorem Context_new_merges_app_context:
  assumes "distinct (map fst (app_context app))"
    and "\<forall>k \<in> set (map fst (app_context app)). k \<notin> set accessor_names"
  shows "\<exists>ctx. Context_new app message = Inr ctx
       \<and> (\<forall>(k, v) \<in> set (app_context app). map_of ctx k = Some v)
       \<and> (\<forall>k. k \<notin> set (map fst (app_context app)) \<longrightarrow>
             map_of ctx k = map_of (Context_fields app message) k)
       \<and> (''state'' \<notin> set (map fst (app_context app)) \<longrightarrow> get_own ctx ''state'' = JObj [])
       \<and> (''message'' \<notin> set (map fst (app_context app)) \<longrightarrow> get_own ctx ''message'' = message)"
proof -
  from assign_plain [OF assms(2), of "Context_fields app message"] obtain ctx where
    c: "Context_new app message = Inr ctx"
    and m: "map_of ctx = map_of (Context_fields app message) ++ map_of (rev (app_context app))"
    by (auto simp: Context_new_def)
  from assms(1) have r: "map_of (rev (app_context app)) = map_of (app_context app)"
    by (rule map_of_rev_distinct)
  have own: "map_of ctx k = Some v" if "(k, v) \<in> set (app_context app)" for k v
    using that assms(1) m r by (simp add: map_add_def)
  have other: "map_of ctx k = map_of (Context_fields app message) k"
    if "k \<notin> set (map fst (app_context app))" for k
  proof -
    from that have "map_of (app_context app) k = None"
      by (simp add: map_of_eq_None_iff)
    with m r show ?thesis by (simp add: map_add_def)
  qed
  have "get_own ctx ''state'' = JObj []" if "''state'' \<notin> set (map fst (app_context app))"
    using other [OF that] by (simp add: get_own_def Context_fields_def)
  moreover have "get_own ctx ''message'' = message"
    if "''message'' \<notin> set (map fst (app_context app))"
    using other [OF that] by (simp add: get_own_def Context_fields_def)
  ultimately show ?thesis using c own other by blast
qed

theorem Context_new_merges_app_context_witness:
  "distinct (map fst (app_context extended_app))
   \<and> ''db'' \<notin> set accessor_names \<and> ''queueName'' \<notin> set accessor_names
   \<and> (\<exists>ctx. Context_new extended_app (JObj [(''content'', JBuffer [1])]) = Inr ctx
        \<and> map_of ctx ''db'' = Some (JStr ''pg'')
        \<and> map_of ctx ''queueName'' = Some (JNum 1)
        \<and> map_of ctx ''consumerChannel'' = Some (JChannel 1)
        \<and> get_own ctx ''state'' = JObj []
        \<and> get_own ctx ''message'' = JObj [(''content'', JBuffer [1])])"
proof -
  let ?msg = "JObj [(''content'', JBuffer [1])]"
  have ctx: "app_context extended_app = [(''db'', JStr ''pg''), (''queueName'', JNum 1)]"
    by (simp add: extended_app_def)
  have h1: "distinct (map fst (app_context extended_app))"
    by (simp add: ctx)
  have a1: "''db'' \<notin> set accessor_names" and a2: "''queueName'' \<notin> set accessor_names"
    by (simp_all add: accessor_names_def Context_prototype_def)
  then have h2: "\<forall>k \<in> set (map fst (app_context extended_app)). k \<notin> set accessor_names"
    by (simp add: ctx)
  from Context_new_merges_app_context [OF h1 h2, of ?msg] obtain c where
    c: "Context_new extended_app ?msg = Inr c"
    and own: "\<forall>(k, v) \<in> set (app_context extended_app). map_of c k = Some v"
    and other: "\<forall>k. k \<notin> set (map fst (app_context extended_app)) \<longrightarrow>
             map_of c k = map_of (Context_fields extended_app ?msg) k"
    and st: "''state'' \<notin> set (map fst (app_context extended_app)) \<longrightarrow> get_own c ''state'' = JObj []"
    and ms: "''message'' \<notin> set (map fst (app_context extended_app)) \<longrightarrow> get_own c ''message'' = ?msg"
    by blast
  from own have "map_of c ''db'' = Some (JStr ''pg'')" and "map_of c ''queueName'' = Some (JNum 1)"
    by (simp_all add: ctx)
  moreover from other [rule_format, of "''consumerChannel''"]
  have "map_of c ''consumerChannel'' = Some (JChannel 1)"
    by (simp add: ctx Context_fields_def extended_app_def connected_app_def)
  moreover from st have "get_own c ''state'' = JObj []" by (simp add: ctx)
  moreover from ms have "get_own c ''message'' = ?msg" by (simp add: ctx)
  ultimately show ?thesis using h1 a1 a2 c by blast
qed

text \<open>
  Claim C10 as stated fails: with \<open>app.context = {fields: {}}\<close> the constructor throws,
  since \<open>fields\<close> is a getter without a setter on the prototype, and with
  \<open>app.context = {content: 'x'}\<close>, which collides with no built-in field, the value
  goes through the setter into \<open>message.content\<close>: the Context gets no own property
  \<open>content\<close>, and its message is no longer the one it was constructed with.
\<close>

theorem Context_new_accessor_counterexample:
  "Context_new (connected_app\<lparr>app_context := [(''fields'', JObj [])]\<rparr>) (JObj [(''content'', JBuffer [1])])
     = Inl (TypeError ''Cannot set property fields of #<Context> which has only a getter'')
   \<and> Context_new (connected_app\<lparr>app_context := [(''content'', JStr ''x'')]\<rparr>) (JObj [(''content'', JBuffer [1])])
     = Inr (Context_fields connected_app (JObj [(''content'', JStr ''x'')]))
   \<and> map_of (Context_fields connected_app (JObj [(''content'', JStr ''x'')])) ''content'' = None"
  by (simp add: Context_new_def Context_fields_def assign_one_def resolve_def Context_prototype_def
      set_through_def get_own_def)

section \<open>Publishing from a Context\<close>

text \<open>
  The static \<open>bufferFrom\<close> itself passes a Buffer through and encodes a string or
  the JSON text of an object; and a Context that has an own property \<open>bufferFrom\<close>
  (from \<open>app.context\<close>) does reach the publisher channel.
\<close>

lemma bufferFrom_static:
  "bufferFrom P (JBuffer bs) = Inr (JBuffer bs)"
  "bufferFrom P (JStr s) = Inr (JBuffer (utf8 P (template P (JStr s))))"
  "JSON_stringify P (JObj ps) = Inr (JStr s) \<Longrightarrow> bufferFrom P (JObj ps) = Inr (JBuffer (utf8 P s))"
  by (simp_all add: bufferFrom_def Buffer_from_def)

lemma publish_with_own_bufferFrom:
  "publish ascii_platform broker
     (Context_fields connected_app (JObj []) @ [(''bufferFrom'', JFun [Return (JBuffer [104, 105])])])
     (JStr ''logs'') (JStr ''info'') (JStr ''hi'') JUndefined world0 =
   (Resolved (JBool True),
    world0\<lparr>calls := [Publish 2 (JStr ''logs'') (JStr ''info'') (JBuffer [104, 105]) (JObj [])]\<rparr>)"
  by (simp add: publish_def this_bufferFrom_def resolve_def Context_fields_def get_own_def
      transport_call_def default_arg_def connected_app_def hello_app_def world0_def)

lemma this_bufferFrom_absent:
  "map_of ctx ''bufferFrom'' = None \<Longrightarrow>
   this_bufferFrom P ctx content w = (Inl (TypeError ''this.bufferFrom is not a function''), w)"
  by (simp add: this_bufferFrom_def resolve_def Context_prototype_def)

text \<open>
  Claim C1. The claim is that \<open>publish\<close> and \<open>sendToQueue\<close> convert a string, an
  object or a Buffer to a byte buffer and hand it to the publisher channel. The code
  calls \<open>this.bufferFrom(content)\<close>, but \<open>bufferFrom\<close> is a static method: an
  instance does not have it. For every Context without an own property
  \<open>bufferFrom\<close>, every content of the three accepted kinds and every options object,
  both operations reject with a TypeError and leave the world as it was: nothing is
  converted, and no operation is requested from the channel.
\<close>

theorem publish_without_instance_bufferFrom:
  assumes "map_of ctx ''bufferFrom'' = None"
    and "typeof content = ''string'' \<or> typeof content = ''object'' \<or> isBuffer content"
    and "typeof options = ''object''"
  shows "publish P T ctx (JStr exchange) (JStr routingKey) content options w =
           (Rejected (TypeError ''this.bufferFrom is not a function''), w)
       \<and> sendToQueue P T ctx (JStr queue) content options w =
           (Rejected (TypeError ''this.bufferFrom is not a function''), w)"
proof -
  from assms(3) have "options \<noteq> JUndefined" by auto
  then have d: "default_arg (JObj []) options = options" by (simp add: default_arg_def)
  show ?thesis
    using assms(2,3) by (simp add: publish_def sendToQueue_def d this_bufferFrom_absent [OF assms(1)])
qed

theorem publish_without_instance_bufferFrom_witness:
  "Context_new connected_app (JObj [(''content'', JBuffer [123, 125])]) =
       Inr (Context_fields connected_app (JObj [(''content'', JBuffer [123, 125])]))
   \<and> map_of (Context_fields connected_app (JObj [(''content'', JBuffer [123, 125])])) ''bufferFrom'' = None
   \<and> ''bufferFrom'' \<in> set Context_static \<and> map_of Context_prototype ''bufferFrom'' = None
   \<and> publish ascii_platform broker (Context_fields connected_app (JObj [(''content'', JBuffer [123, 125])]))
        (JStr ''logs'') (JStr ''info'') (JStr ''hello'') (JObj []) world0 =
       (Rejected (TypeError ''this.bufferFrom is not a function''), world0)
   \<and> sendToQueue ascii_platform broker (Context_fields connected_app (JObj [(''content'', JBuffer [123, 125])]))
        (JStr ''jobs'') (JStr ''hello'') (JObj []) world0 =
       (Rejected (TypeError ''this.bufferFrom is not a function''), world0)
   \<and> calls world0 = []"
  using publish_without_instance_bufferFrom
    [of "Context_fields connected_app (JObj [(''content'', JBuffer [123, 125])])" "JStr ''hello''" "JObj []"
        ascii_platform broker "''logs''" "''info''" world0 "''jobs''"]
  by (simp add: Context_new_def Context_fields_def Context_static_def Context_prototype_def
      connected_app_def hello_app_def world0_def)

text \<open>
  Claim C7. \<open>publish\<close> and \<open>sendToQueue\<close> reject with a TypeError, the world
  untouched (so before any transport operation), whenever the exchange, routing key or
  queue name is not a string, the content is neither a string, an object nor a Buffer,
  or the options given are not an object; a function as content is such a case. Both
  are \<open>async\<close> functions, so what they throw is the rejection of the promise they
  return. An options argument that is omitted or \<open>undefined\<close> takes the default
  \<open>{}\<close> and is not an argument of the wrong type. "String" and "object" are what
  \<open>typeof\<close> says, as in the code's tests.
\<close>

theorem publish_validates_arguments:
  "(typeof exchange \<noteq> ''string'' \<or> typeof routingKey \<noteq> ''string''
      \<or> \<not> (typeof content = ''string'' \<or> typeof content = ''object'' \<or> isBuffer content)
      \<or> (options \<noteq> JUndefined \<and> typeof options \<noteq> ''object'')
     \<longrightarrow> (\<exists>msg. publish P T ctx exchange routingKey content options w = (Rejected (TypeError msg), w)))
   \<and> (typeof queue \<noteq> ''string''
      \<or> \<not> (typeof content = ''string'' \<or> typeof content = ''object'' \<or> isBuffer content)
      \<or> (options \<noteq> JUndefined \<and> typeof options \<noteq> ''object'')
     \<longrightarrow> (\<exists>msg. sendToQueue P T ctx queue content options w = (Rejected (TypeError msg), w)))
   \<and> (typeof content = ''function''
     \<longrightarrow> (\<exists>msg. publish P T ctx exchange routingKey content options w = (Rejected (TypeError msg), w))
       \<and> (\<exists>msg. sendToQueue P T ctx queue content options w = (Rejected (TypeError msg), w)))"
proof -
  have f: "typeof content = ''function'' \<Longrightarrow>
      \<not> (typeof content = ''string'' \<or> typeof content = ''object'' \<or> isBuffer content)"
    by (cases content) auto
  have p: "\<exists>msg. publish P T ctx exchange routingKey content options w = (Rejected (TypeError msg), w)"
    if "typeof exchange \<noteq> ''string'' \<or> typeof routingKey \<noteq> ''string''
      \<or> \<not> (typeof content = ''string'' \<or> typeof content = ''object'' \<or> isBuffer content)
      \<or> (options \<noteq> JUndefined \<and> typeof options \<noteq> ''object'')"
    using that by (auto simp: publish_def default_arg_def)
  have s: "\<exists>msg. sendToQueue P T ctx queue content options w = (Rejected (TypeError msg), w)"
    if "typeof queue \<noteq> ''string''
      \<or> \<not> (typeof content = ''string'' \<or> typeof content = ''object'' \<or> isBuffer content)
      \<or> (options \<noteq> JUndefined \<and> typeof options \<noteq> ''object'')"
    using that by (auto simp: sendToQueue_def default_arg_def)
  show ?thesis using p s f by blast
qed

theorem publish_validates_arguments_witness:
  "typeof (JNum 5) \<noteq> ''string''
   \<and> publish ascii_platform broker (Context_fields connected_app JNull)
        (JNum 5) (JStr ''info'') (JFun [Return (JStr ''x'')]) (JObj []) world0 =
       (Rejected (TypeError ''[exchange] must be a string.''), world0)
   \<and> typeof (JNum 7) \<noteq> ''string''
   \<and> sendToQueue ascii_platform broker (Context_fields connected_app JNull)
        (JNum 7) (JFun [Return (JStr ''x'')]) (JObj []) world0 =
       (Rejected (TypeError ''[queue] must be a string''), world0)
   \<and> typeof (JFun [Return (JStr ''x'')]) = ''function''
   \<and> (\<exists>msg. publish ascii_platform broker (Context_fields connected_app JNull)
        (JNum 5) (JStr ''info'') (JFun [Return (JStr ''x'')]) (JObj []) world0 =
       (Rejected (TypeError msg), world0))
   \<and> publish ascii_platform broker (Context_fields connected_app JNull)
        (JStr ''logs'') (JStr ''info'') (JFun [Return (JStr ''x'')]) (JObj []) world0 =
       (Rejected (TypeError ''[content] must be a string, object or an instance of Buffer.''), world0)"
  using publish_validates_arguments
    [of "JNum 5" "JStr ''info''" "JFun [Return (JStr ''x'')]" "JObj []" ascii_platform broker
        "Context_fields connected_app JNull" world0 "JNum 7"]
  by (simp add: publish_def sendToQueue_def default_arg_def)

section \<open>Connecting\<close>

lemma call_plain_calls: "call_plain body w = (r, w') \<Longrightarrow> calls w' = calls w"
proof (induction body arbitrary: w)
  case Nil
  then show ?case by simp
next
  case (Cons x rest)
  then show ?case by (cases x) auto
qed

lemma call_value_calls: "call_value f nm w = (r, w') \<Longrightarrow> calls w' = calls w"
  by (cases f) (auto dest: call_plain_calls)

lemma call_foreign_calls: "call_foreign v nm w = (r, w') \<Longrightarrow> calls w' = calls w"
  by (cases v) (auto dest: call_value_calls split: option.splits)

lemma run_listeners_calls: "run_listeners ls w = (r, w') \<Longrightarrow> calls w' = calls w"
proof (induction ls arbitrary: w)
  case Nil
  then show ?case by simp
next
  case (Cons l ls)
  then show ?case
    by (auto split: prod.splits sum.splits dest: call_value_calls)
qed

lemma emit_calls: "emit app ev args w = (r, w') \<Longrightarrow> calls w' = calls w"
  by (auto simp: emit_def dest: run_listeners_calls)

lemma transport_call_prefix: "transport_call T c w = (r, w') \<Longrightarrow> prefix (calls w) (calls w')"
  by (auto simp: transport_call_def)

lemma channel_call_prefix: "channel_call T v nm mk w = (r, w') \<Longrightarrow> prefix (calls w) (calls w')"
  by (cases v) (auto dest: transport_call_prefix call_foreign_calls call_value_calls split: option.splits)

lemma connection_call_prefix:
  "connection_call T v nm mk w = (r, w') \<Longrightarrow> prefix (calls w) (calls w')"
  by (cases v) (auto dest: transport_call_prefix call_foreign_calls call_value_calls split: option.splits)

lemma createConnection_calls:
  "createConnection T app url so w = (r, w') \<Longrightarrow> calls w' = calls w @ [AmqpConnect url so]"
  by (auto simp: createConnection_def transport_call_def
      split: prod.splits sum.splits option.splits if_splits dest: emit_calls)

lemma createChannel_prefix:
  "createChannel T app conn key w = (r, w') \<Longrightarrow> prefix (calls w) (calls w')"
  by (auto simp: createChannel_def split: prod.splits sum.splits option.splits if_splits
      dest!: emit_calls connection_call_prefix)

lemma prefetch_call_prefix:
  "prefetch_call T v count global w = (r, w') \<Longrightarrow> prefix (calls w) (calls w')"
  by (cases v)
     (auto simp: transport_call_def dest: call_foreign_calls call_value_calls
       split: option.splits sum.splits)

lemma apply_prefetch_prefix:
  "apply_prefetch T app w = (r, w') \<Longrightarrow> prefix (calls w) (calls w')"
  by (auto simp: apply_prefetch_def split: option.splits prod.splits dest: prefetch_call_prefix)

lemma consume_prefix: "consume T app w = (r, w') \<Longrightarrow> prefix (calls w) (calls w')"
  by (auto simp: consume_def split: sum.splits prod.splits
      dest!: channel_call_prefix intro: prefix_order.trans)

lemma connect_try_calls:
  assumes "connect_try T app url so w = (r, app', w')"
  shows "\<exists>rest. calls w' = calls w @ AmqpConnect url so # rest"
proof -
  obtain r1 w1 where c: "createConnection T app url so w = (r1, w1)"
    by (cases "createConnection T app url so w")
  then have w1: "calls w1 = calls w @ [AmqpConnect url so]"
    by (rule createConnection_calls)
  have "prefix (calls w1) (calls w')"
    using assms c
    by (auto simp: connect_try_def Let_def split: sum.splits prod.splits option.splits
        dest!: createChannel_prefix apply_prefetch_prefix consume_prefix emit_calls
        intro: prefix_order.trans)
  then show ?thesis
    using w1 by (auto simp: prefix_def)
qed

lemma close_prefix: "close T app w = (r, app', w') \<Longrightarrow> prefix (calls w) (calls w')"
  by (auto simp: close_def Let_def split: sum.splits prod.splits if_splits
      dest!: channel_call_prefix connection_call_prefix intro: prefix_order.trans)

text \<open>
  A \<open>prefetch\<close> that the transport fails does not stop the setup: its rejection is
  left unhandled and \<open>connect\<close> goes on to consume.
\<close>

lemma prefetch_not_awaited:
  "fst (connect_try (\<lambda>h c. case c of ChannelPrefetch ch n g \<Rightarrow> Inl (Error ''prefetch failed'')
                                | other \<Rightarrow> broker h c)
         (hello_app\<lparr>prefetchOpts := Some (JNum 20, JBool False)\<rparr>)
         (JStr ''amqp://localhost'') (JObj []) world0) = None
   \<and> unhandled (snd (snd (connect_try (\<lambda>h c. case c of ChannelPrefetch ch n g \<Rightarrow> Inl (Error ''prefetch failed'')
                                | other \<Rightarrow> broker h c)
         (hello_app\<lparr>prefetchOpts := Some (JNum 20, JBool False)\<rparr>)
         (JStr ''amqp://localhost'') (JObj []) world0))) = [Error ''prefetch failed'']"
  by (simp add: connect_try_def createConnection_def createChannel_def consume_def
      apply_prefetch_def messageHandler_def compose_def emit_def listeners_of_def
      transport_call_def Let_def hello_app_def world0_def)

text \<open>
  Claim C4, as amended. \<open>connect\<close> is \<open>async\<close>: when no middleware is registered, or
  no \<open>consumer:error\<close> listener is registered, the call throws nothing and yields a
  promise rejected with the configuration error, the application and the world
  untouched (no connection attempted); the two tests come first in the body, so the
  rejection is decided before anything is awaited. When both preconditions hold and the
  arguments are well typed, the next thing \<open>connect\<close> does is to ask amqplib for the
  connection, with the url and the socket options.
\<close>

theorem connect_checks_preconditions:
  "(middlewares app = [] \<longrightarrow>
      connect T app url socketOpts w =
        (Rejected (Error ''At least one queue middleware is required.''), app, w)
      \<and> async_call (connect T app url socketOpts w) =
        (Inr (Rejected (Error ''At least one queue middleware is required.'')), app, w))
   \<and> (middlewares app \<noteq> [] \<and> listeners_of app ''consumer:error'' = [] \<longrightarrow>
      connect T app url socketOpts w =
        (Rejected (Error ''An error handler is required.''), app, w)
      \<and> async_call (connect T app url socketOpts w) =
        (Inr (Rejected (Error ''An error handler is required.'')), app, w))
   \<and> (middlewares app \<noteq> [] \<and> listeners_of app ''consumer:error'' \<noteq> []
        \<and> typeof url = ''string'' \<and> typeof (default_arg (JObj []) socketOpts) = ''object'' \<longrightarrow>
      (\<exists>rest. calls (snd (snd (connect T app url socketOpts w))) =
         calls w @ AmqpConnect url (default_arg (JObj []) socketOpts) # rest))"
proof (intro conjI impI)
  assume "middlewares app = []"
  then show "connect T app url socketOpts w =
      (Rejected (Error ''At least one queue middleware is required.''), app, w)"
    by (simp add: connect_def Let_def)
  then show "async_call (connect T app url socketOpts w) =
      (Inr (Rejected (Error ''At least one queue middleware is required.'')), app, w)"
    by (simp add: async_call_def)
next
  assume "middlewares app \<noteq> [] \<and> listeners_of app ''consumer:error'' = []"
  then show "connect T app url socketOpts w =
      (Rejected (Error ''An error handler is required.''), app, w)"
    by (simp add: connect_def Let_def)
  then show "async_call (connect T app url socketOpts w) =
      (Inr (Rejected (Error ''An error handler is required.'')), app, w)"
    by (simp add: async_call_def)
next
  let ?so = "default_arg (JObj []) socketOpts"
  assume a: "middlewares app \<noteq> [] \<and> listeners_of app ''consumer:error'' \<noteq> []
        \<and> typeof url = ''string'' \<and> typeof ?so = ''object''"
  obtain r app1 w1 where t: "connect_try T app url ?so w = (r, app1, w1)"
    by (cases "connect_try T app url ?so w") auto
  then obtain rest where w1: "calls w1 = calls w @ AmqpConnect url ?so # rest"
    using connect_try_calls by blast
  show "\<exists>rest. calls (snd (snd (connect T app url socketOpts w))) = calls w @ AmqpConnect url ?so # rest"
  proof (cases r)
    case None
    with a t w1 show ?thesis by (simp add: connect_def Let_def)
  next
    case (Some err)
    obtain c app2 w2 where cl: "close T app1 w1 = (c, app2, w2)"
      by (cases "close T app1 w1") auto
    then have "prefix (calls w1) (calls w2)" by (rule close_prefix)
    then obtain more where "calls w2 = calls w1 @ more" by (auto simp: prefix_def)
    with w1 have "calls w2 = calls w @ AmqpConnect url ?so # (rest @ more)" by simp
    with a t Some cl show ?thesis
      by (cases c) (auto simp: connect_def Let_def)
  qed
qed

theorem connect_checks_preconditions_witness:
  "middlewares (hello_app\<lparr>middlewares := []\<rparr>) = []
   \<and> async_call (connect broker (hello_app\<lparr>middlewares := []\<rparr>) (JStr ''amqp://localhost'') JUndefined world0)
        = (Inr (Rejected (Error ''At least one queue middleware is required.'')),
           hello_app\<lparr>middlewares := []\<rparr>, world0)
   \<and> middlewares (hello_app\<lparr>listeners := []\<rparr>) \<noteq> []
   \<and> listeners_of (hello_app\<lparr>listeners := []\<rparr>) ''consumer:error'' = []
   \<and> async_call (connect broker (hello_app\<lparr>listeners := []\<rparr>) (JStr ''amqp://localhost'') JUndefined world0)
        = (Inr (Rejected (Error ''An error handler is required.'')),
           hello_app\<lparr>listeners := []\<rparr>, world0)
   \<and> middlewares hello_app \<noteq> [] \<and> listeners_of hello_app ''consumer:error'' \<noteq> []
   \<and> typeof (JStr ''amqp://localhost'') = ''string''
   \<and> typeof (default_arg (JObj []) JUndefined) = ''object''
   \<and> (\<exists>rest. calls (snd (snd (connect broker hello_app (JStr ''amqp://localhost'') JUndefined world0))) =
           calls world0 @ AmqpConnect (JStr ''amqp://localhost'') (JObj []) # rest)"
  using connect_checks_preconditions [of "hello_app\<lparr>middlewares := []\<rparr>" broker "JStr ''amqp://localhost''" JUndefined world0]
    connect_checks_preconditions [of "hello_app\<lparr>listeners := []\<rparr>" broker "JStr ''amqp://localhost''" JUndefined world0]
    connect_checks_preconditions [of hello_app broker "JStr ''amqp://localhost''" JUndefined world0]
  by (simp add: hello_app_def listeners_of_def default_arg_def async_call_def)

text \<open>
  Claim C4 as stated fails: \<open>connect\<close> does not fail synchronously. It is \<open>async\<close>, so
  with no middleware registered the call completes normally (it is not a throw, as the
  failures of \<open>use\<close> and \<open>prefetch\<close> are) and what the caller gets is a rejected
  promise.
\<close>

theorem connect_rejects_counterexample:
  "\<not> isl (fst (async_call (connect broker (hello_app\<lparr>middlewares := []\<rparr>)
                    (JStr ''amqp://localhost'') JUndefined world0)))
   \<and> async_call (connect broker (hello_app\<lparr>middlewares := []\<rparr>)
         (JStr ''amqp://localhost'') JUndefined world0)
       = (Inr (Rejected (Error ''At least one queue middleware is required.'')),
          hello_app\<lparr>middlewares := []\<rparr>, world0)
   \<and> use hello_app [JNum 7] = Inl (TypeError ''Middleware must be composed of functions!'')"
  by (simp add: async_call_def connect_def Let_def hello_app_def use_def)

text \<open>
  Claim C2. The claim is that a failure during setup is re-raised to the caller of
  \<open>connect\<close> after the cleanup, and that a failure of the cleanup hides nothing. The
  code's \<open>catch\<close> block starts \<open>close\<close> and throws nothing: once the four argument
  checks have passed, the promise of \<open>connect\<close> is resolved whatever the transport
  does. The error of the setup is dropped when \<open>close\<close> succeeds, and becomes an
  unhandled rejection of a promise nobody holds when \<open>close\<close> fails; the error of
  \<open>close\<close> is dropped in either case.
\<close>

theorem connect_never_reports_setup_failure:
  assumes "middlewares app \<noteq> []" and "listeners_of app ''consumer:error'' \<noteq> []"
    and "typeof url = ''string''" and "typeof (default_arg (JObj []) socketOpts) = ''object''"
  shows "fst (connect T app url socketOpts w) = Resolved ()"
  using assms
  by (auto simp: connect_def Let_def split: prod.splits option.splits promise.splits)

lemmas connect_eval = connect_def connect_try_def createConnection_def createChannel_def consume_def
  apply_prefetch_def close_def messageHandler_def compose_def emit_def listeners_of_def
  transport_call_def default_arg_def Let_def hello_app_def world0_def

theorem connect_never_reports_setup_failure_witness:
  "connect refusing_broker hello_app (JStr ''amqp://localhost'') JUndefined world0 =
     (Resolved (), hello_app,
      world0\<lparr>calls := [AmqpConnect (JStr ''amqp://localhost'') (JObj [])]\<rparr>)
   \<and> fst (connect failing_broker hello_app (JStr ''amqp://localhost'') JUndefined world0) = Resolved ()
   \<and> unhandled (snd (snd (connect failing_broker hello_app (JStr ''amqp://localhost'') JUndefined world0)))
       = [Error ''PRECONDITION_FAILED'']
   \<and> calls (snd (snd (connect failing_broker hello_app (JStr ''amqp://localhost'') JUndefined world0)))
       = [AmqpConnect (JStr ''amqp://localhost'') (JObj []), CreateChannel 0, CreateChannel 0,
          AssertQueue 1 (JStr ''test_queue'') (JObj []), ChannelClose 1]"
  using connect_never_reports_setup_failure
      [of hello_app "JStr ''amqp://localhost''" JUndefined failing_broker world0]
  by (simp add: connect_eval)

section \<open>Dispatching a message\<close>







lemma deliver_success:
  assumes "Context_new app message = Inr ctx" and "fn ctx w = (Inr u, ctx1, w1)"
  shows "deliver fn app message w = (Resolved (), w1)"
  using assms by (simp add: deliver_def)



text \<open>
  An own \<open>onerror\<close> copied from \<open>app.context\<close> is what the \<open>catch\<close> block calls: the
  class's \<open>onerror\<close> does not run, and nothing is emitted.
\<close>

lemma own_onerror_shadows:
  "deliver failing_handler shadowing_app (JObj []) world0 =
     (Resolved (), world0\<lparr>trace := [Note ''own onerror'']\<rparr>)"
  by (simp add: deliver_def call_onerror_def resolve_def Context_new_def Context_fields_def
      assign_one_def Context_prototype_def failing_handler_def shadowing_app_def hello_app_def
      world0_def Let_def)

text \<open>
  So is an own \<open>onerror\<close> that a handler has set on the Context before it failed.
\<close>

lemma handler_set_onerror_shadows:
  "deliver (\<lambda>ctx w. dispatch [[SetOwn ''onerror'' (JFun [Log (Note ''set by handler'')]),
                                 Throw (Error ''handler failed'')]] 0 ctx w)
      hello_app (JObj []) world0 =
     (Resolved (), world0\<lparr>trace := [Note ''set by handler''], entered := [0]\<rparr>)"
  by (simp add: deliver_def call_onerror_def resolve_def Context_new_def Context_fields_def
      hello_app_def world0_def)




section \<open>The composed chain\<close>

lemma dispatch_frame:
  "calls (snd (snd (dispatch hs i ctx w))) = calls w
     \<and> emitted (snd (snd (dispatch hs i ctx w))) = emitted w
     \<and> unhandled (snd (snd (dispatch hs i ctx w))) = unhandled w"
  "calls (snd (snd (run_handler body called hs i ctx w))) = calls w
     \<and> emitted (snd (snd (run_handler body called hs i ctx w))) = emitted w
     \<and> unhandled (snd (snd (run_handler body called hs i ctx w))) = unhandled w"
  by (induction hs i ctx w and body called hs i ctx w rule: dispatch_run_handler.induct)
     (auto split: prod.splits sum.splits)

lemma onion_dispatch:
  "fst (dispatch (map (\<lambda>i. [Log (Entry i), AwaitNext, Log (Exit i)]) [k..<k + n]) k ctx w) = Inr ()
   \<and> fst (snd (dispatch (map (\<lambda>i. [Log (Entry i), AwaitNext, Log (Exit i)]) [k..<k + n]) k ctx w)) = ctx
   \<and> trace (snd (snd (dispatch (map (\<lambda>i. [Log (Entry i), AwaitNext, Log (Exit i)]) [k..<k + n]) k ctx w)))
       = trace w @ map Entry [k..<k + n] @ map Exit (rev [k..<k + n])"
proof (induction n arbitrary: k w)
  case 0
  then show ?case by simp
next
  case (Suc n)
  let ?h = "\<lambda>i. [Log (Entry i), AwaitNext, Log (Exit i)]"
  let ?w0 = "w\<lparr>entered := entered w @ [k], trace := trace w @ [Entry k], invoked := invoked w @ [k]\<rparr>"
  have up: "[k..<k + Suc n] = k # [Suc k..<Suc k + n]"
    by (simp add: upt_conv_Cons)
  obtain r c1 w1 where d: "dispatch (map ?h [Suc k..<Suc k + n]) (Suc k) ctx ?w0 = (r, c1, w1)"
    by (cases "dispatch (map ?h [Suc k..<Suc k + n]) (Suc k) ctx ?w0")
  from Suc.IH [of "Suc k" ?w0] d have r: "r = Inr ()" and c: "c1 = ctx"
    and t: "trace w1 = trace w @ [Entry k] @ map Entry [Suc k..<Suc k + n] @ map Exit (rev [Suc k..<Suc k + n])"
    by simp_all
  show ?case
    unfolding up using d r c t by simp
qed

lemma compose_onion:
  "compose (onion N) =
     Inr (\<lambda>ctx w. dispatch (map (\<lambda>i. [Log (Entry i), AwaitNext, Log (Exit i)]) [0..<N]) 0 ctx
            (w\<lparr>entered := [], invoked := []\<rparr>))"
  by (simp add: compose_def onion_def onion_handler_def list_all_iff comp_def)

text \<open>
  Claim C5. For every \<open>N\<close>, the composition of the \<open>N\<close> handlers that record their
  entry, await \<open>next()\<close> and record their exit succeeds on every Context and adds to
  the trace exactly \<open>Entry 0, ..., Entry (N - 1), Exit (N - 1), ..., Exit 0\<close>; and the
  delivery of one message to an application with these middlewares resolves with that
  trace, \<open>onerror\<close> not being called.
\<close>

theorem onion_order:
  "(\<exists>fn. compose (onion N) = Inr fn
      \<and> (\<forall>ctx w. fst (fn ctx w) = Inr ()
            \<and> trace (snd (snd (fn ctx w))) = trace w @ map Entry [0..<N] @ map Exit (rev [0..<N])))
   \<and> (middlewares app = onion N \<and> Context_new app message = Inr ctx \<longrightarrow>
        (\<exists>handler w'. messageHandler app = Inr handler
           \<and> handler app message w = (Resolved (), w')
           \<and> trace w' = trace w @ map Entry [0..<N] @ map Exit (rev [0..<N])
           \<and> emitted w' = emitted w))"
proof -
  let ?fn = "\<lambda>(ctx::context) w.
      dispatch (map (\<lambda>i. [Log (Entry i), AwaitNext, Log (Exit i)]) [0..<N]) 0 ctx
        (w\<lparr>entered := [], invoked := []\<rparr>)"
  have run: "fst (?fn c v) = Inr ()
      \<and> trace (snd (snd (?fn c v))) = trace v @ map Entry [0..<N] @ map Exit (rev [0..<N])" for c v
    using onion_dispatch [of 0 N c "v\<lparr>entered := [], invoked := []\<rparr>"] by simp
  have em: "emitted (snd (snd (?fn c v))) = emitted v" for c v
    by (simp add: dispatch_frame)
  have first: "\<exists>fn. compose (onion N) = Inr fn
      \<and> (\<forall>ctx w. fst (fn ctx w) = Inr ()
            \<and> trace (snd (snd (fn ctx w))) = trace w @ map Entry [0..<N] @ map Exit (rev [0..<N]))"
    using compose_onion [of N] run by blast
  have second: "\<exists>handler w'. messageHandler app = Inr handler
           \<and> handler app message w = (Resolved (), w')
           \<and> trace w' = trace w @ map Entry [0..<N] @ map Exit (rev [0..<N])
           \<and> emitted w' = emitted w"
    if a: "middlewares app = onion N \<and> Context_new app message = Inr ctx"
  proof -
    obtain r c1 w1 where d: "?fn ctx w = (r, c1, w1)" by (cases "?fn ctx w")
    with run [of ctx w] em [of ctx w] have "r = Inr ()"
      and "trace w1 = trace w @ map Entry [0..<N] @ map Exit (rev [0..<N])"
      and "emitted w1 = emitted w" by simp_all
    moreover have "messageHandler app = Inr (deliver ?fn)"
      using a by (simp add: messageHandler_def compose_onion)
    moreover have "deliver ?fn app message w = (Resolved (), w1)"
      using a d \<open>r = Inr ()\<close> by (simp add: deliver_def)
    ultimately show ?thesis by blast
  qed
  from first second show ?thesis by blast
qed

theorem onion_order_witness:
  "middlewares (hello_app\<lparr>middlewares := onion 3\<rparr>) = onion 3
   \<and> Context_new (hello_app\<lparr>middlewares := onion 3\<rparr>) (JObj []) =
        Inr (Context_fields (hello_app\<lparr>middlewares := onion 3\<rparr>) (JObj []))
   \<and> (\<exists>handler w'. messageHandler (hello_app\<lparr>middlewares := onion 3\<rparr>) = Inr handler
         \<and> handler (hello_app\<lparr>middlewares := onion 3\<rparr>) (JObj []) world0 = (Resolved (), w')
         \<and> trace w' = [Entry 0, Entry 1, Entry 2, Exit 2, Exit 1, Exit 0]
         \<and> emitted w' = [])"
  using onion_order [of 3 "hello_app\<lparr>middlewares := onion 3\<rparr>" "JObj []"
      "Context_fields (hello_app\<lparr>middlewares := onion 3\<rparr>) (JObj [])" world0]
  by (simp add: Context_new_def hello_app_def world0_def upt_rec numeral_2_eq_2 numeral_3_eq_3)






end
